theory Spec2Isabelle
  imports Complex_Main
begin

text \<open>
  A model of the session orchestration of the tutoring simulation server: the session store
  (\<^verbatim>\<open>server/conversationManager.mjs\<close>), the strategy selector
  (\<^verbatim>\<open>server/tutorPrompts.mjs\<close>) and the two request handlers that advance a session
  (\<^verbatim>\<open>server/index.mjs\<close>). The module's mutable map of conversations is passed
  explicitly: an operation takes the store and returns the store afterwards with its result.
  What the server obtains from outside during a request (identifiers, the time, the chat
  completions and their parse) is an argument of the model.
\<close>

section \<open>Values of the JavaScript runtime\<close>

text \<open>
  The server is JavaScript: the level and the rationale it locks are whatever values
  \<^verbatim>\<open>JSON.parse\<close> produced. A parsed JSON value is modelled by \<open>json\<close>. A JavaScript
  number is a double; every finite double is a rational, and the code only tests a number
  for being zero and compares it with 1 and 5, so \<open>JNum\<close> carries a rational (an
  infinity, which \<^verbatim>\<open>JSON.parse\<close> can return, behaves like any number outside 1..5).
\<close>

datatype json =
    JNull
  | JBool bool
  | JNum rat
  | JStr string
  | JArr "json list"
  | JObj "(string \<times> json) list"

text \<open>Truthiness of a value, as \<^verbatim>\<open>if (v)\<close>, \<^verbatim>\<open>v && ...\<close> and \<^verbatim>\<open>v || ...\<close> test it.\<close>

fun truthy :: "json \<Rightarrow> bool" where
  "truthy JNull = False"
| "truthy (JBool b) = b"
| "truthy (JNum n) = (n \<noteq> 0)"
| "truthy (JStr s) = (s \<noteq> [])"
| "truthy (JArr vs) = True"
| "truthy (JObj kvs) = True"

text \<open>
  \<^verbatim>\<open>v >= 1\<close> and \<^verbatim>\<open>v <= 5\<close> convert \<open>v\<close> to a number first. The conversion yields
  a number or NaN, for which every comparison is false, or throws a TypeError (an object
  whose \<^verbatim>\<open>valueOf\<close> and \<^verbatim>\<open>toString\<close> properties are not functions). The conversion of
  null, booleans and numbers is written out; that of strings, arrays and objects is the
  runtime's (string parsing, \<^verbatim>\<open>toString\<close>) and is the parameter \<open>co\<close>.
\<close>

datatype coerced = Number rat | NaN | TypeError

fun ToNumber :: "(json \<Rightarrow> coerced) \<Rightarrow> json \<Rightarrow> coerced" where
  "ToNumber co JNull = Number 0"
| "ToNumber co (JBool b) = Number (if b then 1 else 0)"
| "ToNumber co (JNum n) = Number n"
| "ToNumber co v = co v"

text \<open>
  \<^verbatim>\<open>parsed.level\<close>, \<^verbatim>\<open>parsed.rationale\<close>: \<open>None\<close> is \<^verbatim>\<open>undefined\<close>. Only an object has
  such a property. (On null the access throws; the caller handles that case.)
\<close>

fun getProp :: "json \<Rightarrow> string \<Rightarrow> json option" where
  "getProp (JObj kvs) k = map_of kvs k"
| "getProp v k = None"

text \<open>\<^verbatim>\<open>s || d\<close> on a string that may be null or undefined (\<open>None\<close>).\<close>

fun or_default :: "string option \<Rightarrow> string \<Rightarrow> string" where
  "or_default None d = d"
| "or_default (Some s) d = (if s = [] then d else s)"

section \<open>The session store (conversationManager.mjs)\<close>

record topic_info =
  t_id :: string
  t_subject_id :: string
  t_subject_name :: string
  t_name :: string
  t_grade_level :: nat

record student_info =
  s_id :: string
  s_name :: string
  s_grade_level :: nat
  s_topics :: "topic_info list"

record message =
  role :: string
  content :: "string option"
  timestamp :: string

record locked_prediction =
  level :: json
  rationale :: json
  lockedAtTurn :: nat
  lockedAt :: string

record conversation =
  conv_id :: string
  studentId :: string
  topicId :: string
  student :: student_info
  topic :: topic_info
  messages :: "message list"
  turnNumber :: nat
  maxTurns :: nat
  isComplete :: bool
  createdAt :: string
  lockedPrediction :: "locked_prediction option"

text \<open>The module's \<^verbatim>\<open>conversations\<close> map, from conversation id to conversation.\<close>

type_synonym store = "string \<rightharpoonup> conversation"

definition MAX_TURNS :: nat where
  "MAX_TURNS = 10"

record conversation_start =
  cs_conversation_id :: string
  cs_student_id :: string
  cs_topic_id :: string
  cs_max_turns :: nat
  cs_conversations_remaining :: nat

text \<open>
  \<open>uuid\<close> is what \<^verbatim>\<open>uuidv4()\<close> returns and \<open>now\<close> what \<^verbatim>\<open>new Date().toISOString()\<close>
  returns; both are inputs of the model.
\<close>

definition createConversation ::
  "store \<Rightarrow> string \<Rightarrow> string \<Rightarrow> string \<Rightarrow> student_info \<Rightarrow> topic_info \<Rightarrow> string
    \<Rightarrow> store \<times> conversation_start" where
  "createConversation s uuid sid tid st tp now =
     (let conversationId = ''conv_'' @ uuid;
          c = \<lparr>conv_id = conversationId, studentId = sid, topicId = tid, student = st,
               topic = tp, messages = [], turnNumber = 0, maxTurns = MAX_TURNS,
               isComplete = False, createdAt = now, lockedPrediction = None\<rparr>
      in (s(conversationId \<mapsto> c),
          \<lparr>cs_conversation_id = conversationId, cs_student_id = sid, cs_topic_id = tid,
           cs_max_turns = MAX_TURNS, cs_conversations_remaining = 999\<rparr>))"

definition getConversation :: "store \<Rightarrow> string \<Rightarrow> conversation option" where
  "getConversation s cid = s cid"

text \<open>One call of \<^verbatim>\<open>addMessage\<close> on the conversation object itself.\<close>

definition pushMessage :: "conversation \<Rightarrow> string \<Rightarrow> string option \<Rightarrow> string \<Rightarrow> conversation" where
  "pushMessage c r txt now =
     (let c1 = c\<lparr>messages := messages c @ [\<lparr>role = r, content = txt, timestamp = now\<rparr>]\<rparr>;
          c2 = (if r = ''tutor'' then c1\<lparr>turnNumber := turnNumber c1 + 1\<rparr> else c1)
      in if maxTurns c2 \<le> turnNumber c2 then c2\<lparr>isComplete := True\<rparr> else c2)"

definition addMessage ::
  "store \<Rightarrow> string \<Rightarrow> string \<Rightarrow> string option \<Rightarrow> string \<Rightarrow> store \<times> conversation option" where
  "addMessage s cid r txt now =
     (case s cid of
        None \<Rightarrow> (s, None)
      | Some c \<Rightarrow> (s(cid \<mapsto> pushMessage c r txt now), Some (pushMessage c r txt now)))"

definition isConversationComplete :: "store \<Rightarrow> string \<Rightarrow> bool" where
  "isConversationComplete s cid = (case s cid of None \<Rightarrow> True | Some c \<Rightarrow> isComplete c)"

definition endConversation :: "store \<Rightarrow> string \<Rightarrow> store \<times> conversation option" where
  "endConversation s cid =
     (case s cid of
        None \<Rightarrow> (s, None)
      | Some c \<Rightarrow> (s(cid \<mapsto> c\<lparr>isComplete := True\<rparr>), Some (c\<lparr>isComplete := True\<rparr>)))"

text \<open>
  \<^verbatim>\<open>!conversation.lockedPrediction\<close> holds exactly when the field is still null: once
  set it is an object, which is truthy whatever level it holds.
\<close>

definition setLockedPrediction ::
  "store \<Rightarrow> string \<Rightarrow> json \<Rightarrow> json \<Rightarrow> string \<Rightarrow> store \<times> locked_prediction option" where
  "setLockedPrediction s cid lv rat now =
     (case s cid of
        None \<Rightarrow> (s, None)
      | Some c \<Rightarrow>
          (case lockedPrediction c of
             None \<Rightarrow>
               (let p = \<lparr>level = lv, rationale = rat, lockedAtTurn = turnNumber c, lockedAt = now\<rparr>
                in (s(cid \<mapsto> c\<lparr>lockedPrediction := Some p\<rparr>), Some p))
           | Some p \<Rightarrow> (s, Some p)))"

definition getLockedPrediction :: "store \<Rightarrow> string \<Rightarrow> locked_prediction option" where
  "getLockedPrediction s cid = (case s cid of None \<Rightarrow> None | Some c \<Rightarrow> lockedPrediction c)"

definition deleteConversation :: "store \<Rightarrow> string \<Rightarrow> store \<times> bool" where
  "deleteConversation s cid = (s(cid := None), s cid \<noteq> None)"

text \<open>
  A sequence of calls of the store's mutating operations, as a list of operations run in
  order on the store.
\<close>

datatype store_op =
    OpCreate string string string student_info topic_info string
  | OpAdd string string "string option" string
  | OpEnd string
  | OpLock string json json string
  | OpDelete string

fun apply_op :: "store \<Rightarrow> store_op \<Rightarrow> store" where
  "apply_op s (OpCreate uuid sid tid st tp now) = fst (createConversation s uuid sid tid st tp now)"
| "apply_op s (OpAdd cid r txt now) = fst (addMessage s cid r txt now)"
| "apply_op s (OpEnd cid) = fst (endConversation s cid)"
| "apply_op s (OpLock cid lv rat now) = fst (setLockedPrediction s cid lv rat now)"
| "apply_op s (OpDelete cid) = fst (deleteConversation s cid)"

definition run_ops :: "store \<Rightarrow> store_op list \<Rightarrow> store" where
  "run_ops s ops = foldl apply_op s ops"

text \<open>
  The life of the session \<open>cid\<close> lasts while no operation deletes it and none creates a
  conversation under its id again (\<^verbatim>\<open>uuidv4\<close> is taken to return fresh ids).
\<close>

fun within_life :: "string \<Rightarrow> store_op \<Rightarrow> bool" where
  "within_life cid (OpCreate uuid sid tid st tp now) = (''conv_'' @ uuid \<noteq> cid)"
| "within_life cid (OpDelete d) = (d \<noteq> cid)"
| "within_life cid other = True"

fun is_tutor_append :: "string \<Rightarrow> store_op \<Rightarrow> bool" where
  "is_tutor_append cid (OpAdd d r txt now) = (d = cid \<and> r = ''tutor'')"
| "is_tutor_append cid other = False"

fun is_end_of :: "string \<Rightarrow> store_op \<Rightarrow> bool" where
  "is_end_of cid (OpEnd d) = (d = cid)"
| "is_end_of cid other = False"

section \<open>The strategy selector (tutorPrompts.mjs)\<close>

text \<open>
  A string is modelled by its UTF-8 bytes: the search for an ASCII marker and the test for a
  digit give the same answer on the bytes as on JavaScript's code units. \<^verbatim>\<open>toLowerCase\<close>
  is Unicode-aware. On a text of ASCII characters it maps the letters A to Z and is written
  out; on a text with other characters it is the runtime's case mapping (which, for
  instance, turns the Kelvin sign into k) and is the parameter \<open>rt\<close>.
\<close>

definition is_ascii :: "string \<Rightarrow> bool" where
  "is_ascii s = list_all (\<lambda>c. (of_char c :: nat) < 128) s"

definition lower_char :: "char \<Rightarrow> char" where
  "lower_char c =
     (case map_of (zip ''ABCDEFGHIJKLMNOPQRSTUVWXYZ'' ''abcdefghijklmnopqrstuvwxyz'') c of
        None \<Rightarrow> c
      | Some l \<Rightarrow> l)"

definition toLowerCase :: "(string \<Rightarrow> string) \<Rightarrow> string \<Rightarrow> string" where
  "toLowerCase rt s = (if is_ascii s then map lower_char s else rt s)"

fun startsWith :: "string \<Rightarrow> string \<Rightarrow> bool" where
  "startsWith s [] = True"
| "startsWith [] (m # ms) = False"
| "startsWith (c # cs) (m # ms) = (c = m \<and> startsWith cs ms)"

text \<open>\<^verbatim>\<open>text.includes(m)\<close>: \<open>m\<close> occurs in \<open>s\<close> as a contiguous substring.\<close>

fun str_includes :: "string \<Rightarrow> string \<Rightarrow> bool" where
  "str_includes [] m = (m = [])"
| "str_includes (c # cs) m = (startsWith (c # cs) m \<or> str_includes cs m)"

text \<open>The regular expression \<^verbatim>\<open>\d\<close>: a character 0 to 9.\<close>

definition is_digit :: "char \<Rightarrow> bool" where
  "is_digit c = (c \<in> set ''0123456789'')"

definition CONFUSION_MARKERS :: "string list" where
  "CONFUSION_MARKERS =
     [''dont understand'', ''don't understand'', ''do not understand'', ''idk'', ''no idea'',
      ''not sure'', ''i dont know'', ''i don't know'', ''i am lost'', ''im lost'', ''confused'']"

definition hedgeMarkers :: "string list" where
  "hedgeMarkers = [''maybe'', ''i think'', ''i guess'', ''not sure'', ''unsure'']"

definition reasonMarkers :: "string list" where
  "reasonMarkers = [''because'', ''so that'', ''therefore'', ''since'', ''so'', ''means'', ''reason'']"

text \<open>\<^verbatim>\<open>markers.some(m => text.includes(m))\<close>\<close>

definition some_included :: "string list \<Rightarrow> string \<Rightarrow> bool" where
  "some_included markers s = list_ex (str_includes s) markers"

text \<open>\<^verbatim>\<open>xs.slice(-n)\<close>: the last \<open>n\<close> elements, all of them when there are fewer.\<close>

definition slice_last :: "nat \<Rightarrow> 'a list \<Rightarrow> 'a list" where
  "slice_last n xs = drop (length xs - n) xs"

text \<open>The body of the loop of \<^verbatim>\<open>quickEstimateForStrategy\<close>: the score after one message.\<close>

definition score_step :: "(string \<Rightarrow> string) \<Rightarrow> int \<Rightarrow> message \<Rightarrow> int" where
  "score_step rt score msg =
     (let txt = toLowerCase rt (or_default (content msg) []);
          s1 = (if some_included CONFUSION_MARKERS txt then score - 2 else score);
          s2 = (if some_included hedgeMarkers txt then s1 - 1 else s1);
          s3 = (if some_included reasonMarkers txt then s2 + 1 else s2);
          s4 = (if str_includes txt ''wait'' \<or> str_includes txt ''actually'' then s3 + 1 else s3)
      in if list_ex is_digit txt then s4 + 1 else s4)"

definition quickEstimateForStrategy :: "(string \<Rightarrow> string) \<Rightarrow> message list \<Rightarrow> nat" where
  "quickEstimateForStrategy rt msgs =
     (let studentMessages = slice_last 3 (filter (\<lambda>m. role m = ''student'') msgs);
          score = foldl (score_step rt) 0 studentMessages
      in if score \<le> -3 then 1
         else if score \<le> -1 then 2
         else if score \<le> 1 then 3
         else if score \<le> 3 then 4
         else 5)"

text \<open>Decimal rendering of a counter, as a template literal prints a non-negative integer
  below 10^21 (the turn counter of a session stops at its 10 turns).\<close>

function show_nat :: "nat \<Rightarrow> string" where
  "show_nat n =
     (if n < 10 then [''0123456789'' ! n]
      else show_nat (n div 10) @ [''0123456789'' ! (n mod 10)])"
  by pat_completeness auto
termination
  by (relation "measure id") auto

definition buildStrategyDirective ::
  "(string \<Rightarrow> string) \<Rightarrow> nat \<Rightarrow> nat \<Rightarrow> string \<Rightarrow> topic_info \<Rightarrow> message list \<Rightarrow> string" where
  "buildStrategyDirective rt turn maxT phase tp msgs =
     (if turn = 1 then
        ''Adaptive strategy: Follow the TURN 1 Opening Survey structure exactly. '' @
        ''Include the 3 questions labeled Basic/Intermediate/Advanced. '' @
        ''Do not add extra questions beyond those three.''
      else
        let lastStudentMsg = find (\<lambda>m. role m = ''student'') (rev msgs);
            lastText = toLowerCase rt
              (case lastStudentMsg of None \<Rightarrow> [] | Some m \<Rightarrow> or_default (content m) []);
            isConfused = some_included CONFUSION_MARKERS lastText;
            estimatedLevel = quickEstimateForStrategy rt msgs;
            guidance =
              (if phase = ''diagnostic'' then
                 (if isConfused then
                    ''If the student is confused, acknowledge it and give ONE short clarification, '' @
                    ''then ask ONE simple check question.''
                  else
                    ''Ask at most TWO short diagnostic questions. Require a brief reason for one.'')
               else if isConfused then
                 ''Start by resolving the confusion from the last turn in 2-3 sentences, '' @
                 ''then ask ONE focused check question.''
               else if 4 \<le> estimatedLevel then
                 ''Ask a transfer or 'why' question to probe depth. Require a 1-sentence justification.''
               else
                 ''Give a concise explanation, then ask ONE practice question plus a short reason.'')
        in ''Adaptive strategy: '' @
           ''turn='' @ show_nat turn @ ''/'' @ show_nat maxT @ '', phase='' @ phase @ '', '' @
           ''topic='' @ or_default (Some (t_name tp)) [] @
           '', estimated_level='' @ show_nat estimatedLevel @ ''. '' @
           guidance @ '' Avoid long lectures and always respond to the last student message.'')"

text \<open>\<^verbatim>\<open>turn <= 5 ? 'diagnostic' : 'tutoring'\<close>, as both \<^verbatim>\<open>buildTutorMessages\<close> and the
  handler of \<^verbatim>\<open>/api/tutor-response\<close> compute the phase.\<close>

definition phase_of_turn :: "nat \<Rightarrow> string" where
  "phase_of_turn turn = (if turn \<le> 5 then ''diagnostic'' else ''tutoring'')"

record openai_message =
  oa_role :: string
  oa_content :: "string option"

definition turn_directive :: "nat \<Rightarrow> nat \<Rightarrow> string \<Rightarrow> string" where
  "turn_directive turn maxT phase =
     (if turn = 1 then
        ''Turn '' @ show_nat turn @ '' of '' @ show_nat maxT @ ''. Phase: '' @ phase @ ''. '' @
        ''Follow the TURN 1 Opening Survey structure exactly. '' @
        ''Ask exactly 3 questions labeled Basic/Intermediate/Advanced.''
      else
        ''Turn '' @ show_nat turn @ '' of '' @ show_nat maxT @ ''. Phase: '' @ phase @ ''. '' @
        ''Diagnostic phase: ask short questions only; no teaching. '' @
        ''Tutoring phase: explain and teach based on the student's level.'')"

text \<open>The loop that appends the history: a message that is neither tutor's nor student's
  is skipped.\<close>

fun history_messages :: "message list \<Rightarrow> openai_message list" where
  "history_messages [] = []"
| "history_messages (m # ms) =
     (if role m = ''tutor'' then \<lparr>oa_role = ''assistant'', oa_content = content m\<rparr> # history_messages ms
      else if role m = ''student'' then \<lparr>oa_role = ''user'', oa_content = content m\<rparr> # history_messages ms
      else history_messages ms)"

text \<open>\<open>systemPrompt\<close> is the text \<^verbatim>\<open>buildTutorSystemPrompt\<close> returns, an input here.\<close>

definition buildTutorMessages ::
  "(string \<Rightarrow> string) \<Rightarrow> string \<Rightarrow> topic_info \<Rightarrow> message list \<Rightarrow> nat \<Rightarrow> nat
    \<Rightarrow> openai_message list" where
  "buildTutorMessages rt systemPrompt tp conversationMessages turn maxT =
     (let phase = phase_of_turn turn;
          turnDirective = turn_directive turn maxT phase;
          strategyDirective = buildStrategyDirective rt turn maxT phase tp conversationMessages
      in [\<lparr>oa_role = ''system'', oa_content = Some systemPrompt\<rparr>,
          \<lparr>oa_role = ''system'', oa_content = Some turnDirective\<rparr>,
          \<lparr>oa_role = ''system'', oa_content = Some strategyDirective\<rparr>]
         @ history_messages conversationMessages)"

section \<open>The request handlers (index.mjs)\<close>

text \<open>
  What the world outside the process answers during one request is an input of the model:
  the clock, the prompts built by the prompt modules, and the outcome of each call of the
  chat-completion service. A call either throws or returns a message whose content is a
  string or null (\<open>None\<close>). The runtime's conversions to a number and to lower case are
  inputs as well. The clock is read once per request; no property below
  depends on a time stamp. The messages sent to the judge are not modelled: its outcome is
  an input whatever the prompt was.
\<close>

datatype completion = CompletionThrows | CompletionContent "string option"

text \<open>
  The judge's call either throws, or returns null content, or returns a text \<open>raw\<close>
  together with what \<^verbatim>\<open>JSON.parse(raw)\<close> does on it: \<open>None\<close> when it throws a
  SyntaxError, otherwise the parsed value.
\<close>

datatype judge_outcome = JudgeThrows | JudgeNull | JudgeText string "json option"

record world =
  clock :: string
  student_prompt :: "string option"
  tutor_prompt :: string
  dialogue :: completion
  judge :: judge_outcome
  coerce :: "json \<Rightarrow> coerced"
  lowerCase :: "string \<Rightarrow> string"

text \<open>The calls of the chat-completion service a request made, in order.\<close>

datatype ext_call =
    StudentChat "openai_message list"
  | TutorChat "openai_message list"
  | JudgeChat

record http_error =
  status :: nat
  error :: string

text \<open>\<^verbatim>\<open>!x\<close> on a field of the request body: missing, null or the empty string.\<close>

fun missing :: "string option \<Rightarrow> bool" where
  "missing None = True"
| "missing (Some x) = (x = [])"

definition getOpenAIMessages :: "store \<Rightarrow> string \<Rightarrow> openai_message list" where
  "getOpenAIMessages s cid =
     (case s cid of
        None \<Rightarrow> []
      | Some c \<Rightarrow>
          map (\<lambda>msg. \<lparr>oa_role = (if role msg = ''tutor'' then ''user'' else ''assistant''),
                      oa_content = content msg\<rparr>) (messages c))"

text \<open>\<^verbatim>\<open>parseInt\<close> on a single digit character.\<close>

definition digit_value :: "char \<Rightarrow> nat" where
  "digit_value c = of_char c - 48"

text \<open>
  The \<^verbatim>\<open>catch (parseError)\<close> block: \<^verbatim>\<open>rawPrediction.match(/[1-5]/)\<close> finds the first
  character 1 to 5 of the raw text, which \<^verbatim>\<open>parseInt\<close> reads; the level stays 3
  without one, and the rationale stays empty either way.
\<close>

definition digit_fallback :: "string \<Rightarrow> json \<times> json" where
  "digit_fallback raw =
     (case find (\<lambda>c. c \<in> set ''12345'') raw of
        None \<Rightarrow> (JNum 3, JStr [])
      | Some d \<Rightarrow> (JNum (of_nat (digit_value d)), JStr []))"

text \<open>\<^verbatim>\<open>parsed.rationale || ''\<close>\<close>

definition rationale_or_empty :: "json \<Rightarrow> json" where
  "rationale_or_empty p =
     (case getProp p ''rationale'' of
        None \<Rightarrow> JStr []
      | Some v \<Rightarrow> if truthy v then v else JStr [])"

text \<open>
  The inner \<^verbatim>\<open>try\<close> of the level lock, from \<^verbatim>\<open>let level = 3\<close> to the end of its
  \<^verbatim>\<open>catch\<close>: the level and rationale handed to \<^verbatim>\<open>setLockedPrediction\<close>. The guard
  \<^verbatim>\<open>parsed.level && parsed.level >= 1 && parsed.level <= 5\<close> tests truthiness first and
  converts the level to a number only then. Reading \<^verbatim>\<open>parsed.level\<close> of null, and a
  conversion that throws, are TypeErrors inside the \<^verbatim>\<open>try\<close>: the same \<^verbatim>\<open>catch\<close> handles
  them, before any rationale was assigned.
\<close>

definition interpretPrediction :: "(json \<Rightarrow> coerced) \<Rightarrow> string \<Rightarrow> json option \<Rightarrow> json \<times> json" where
  "interpretPrediction co raw parsed =
     (case parsed of
        None \<Rightarrow> digit_fallback raw
      | Some p \<Rightarrow>
          if p = JNull then digit_fallback raw
          else
            (case getProp p ''level'' of
               None \<Rightarrow> (JNum 3, rationale_or_empty p)
             | Some v \<Rightarrow>
                 if \<not> truthy v then (JNum 3, rationale_or_empty p)
                 else
                   (case ToNumber co v of
                      TypeError \<Rightarrow> digit_fallback raw
                    | NaN \<Rightarrow> (JNum 3, rationale_or_empty p)
                    | Number n \<Rightarrow>
                        (if 1 \<le> n \<and> n \<le> 5 then v else JNum 3, rationale_or_empty p))))"

text \<open>
  The outer \<^verbatim>\<open>try\<close>/\<^verbatim>\<open>catch (predictionError)\<close> of the level lock, the same text in
  both handlers: the store afterwards and the level reported. Null content makes
  \<^verbatim>\<open>rawPrediction.match\<close> throw inside the inner \<^verbatim>\<open>catch\<close>, so it ends in the outer one
  like a failed call.
\<close>

definition lockFromJudge :: "store \<Rightarrow> string \<Rightarrow> world \<Rightarrow> store \<times> json" where
  "lockFromJudge s cid w =
     (case judge w of
        JudgeText raw parsed \<Rightarrow>
          (let (lv, rat) = interpretPrediction (coerce w) raw parsed
           in (fst (setLockedPrediction s cid lv rat (clock w)), lv))
      | failed \<Rightarrow>
          (fst (setLockedPrediction s cid (JNum 3) (JStr ''Default (prediction failed)'') (clock w)),
           JNum 3))"

record interact_request =
  conversation_id :: "string option"
  tutor_message :: "string option"

record interact_response =
  ir_conversation_id :: string
  student_response :: string
  ir_turn_number :: nat
  is_complete :: bool
  ir_estimated_level :: "json option"

text \<open>
  POST /api/interact. The result is the store afterwards, the service calls made and the
  response (\<open>Inl\<close> an error status). The response's \<^verbatim>\<open>interaction_id\<close>, a timestamp,
  and the \<^verbatim>\<open>details\<close> of an error are left out. Logging is not modelled, except that the
  log line after the student's reply reads \<^verbatim>\<open>studentResponse.substring\<close> and so throws
  on null content, inside the \<^verbatim>\<open>try\<close>. Past the first guard \<open>cid\<close> is the id of the
  request.
\<close>

definition interact ::
  "store \<Rightarrow> interact_request \<Rightarrow> world \<Rightarrow> store \<times> ext_call list \<times> (http_error + interact_response)" where
  "interact s req w =
     (if missing (conversation_id req) \<or> missing (tutor_message req) then
        (s, [], Inl \<lparr>status = 400, error = ''conversation_id and tutor_message are required''\<rparr>)
      else
        (let cid = or_default (conversation_id req) [] in
         (case getConversation s cid of
            None \<Rightarrow> (s, [], Inl \<lparr>status = 404, error = ''Conversation not found''\<rparr>)
          | Some conversation \<Rightarrow>
              (if isComplete conversation then
                 (s, [], Inl \<lparr>status = 400, error = ''Conversation is already complete''\<rparr>)
               else
                 (let s1 = fst (addMessage s cid ''tutor'' (tutor_message req) (clock w)) in
                  (case student_prompt w of
                     None \<Rightarrow> (s1, [], Inl \<lparr>status = 500, error = ''Failed to build system prompt''\<rparr>)
                   | Some systemPrompt \<Rightarrow>
                       (let chat = StudentChat (\<lparr>oa_role = ''system'', oa_content = Some systemPrompt\<rparr>
                                               # getOpenAIMessages s1 cid);
                            failure = Inl \<lparr>status = 500, error = ''Failed to generate student response''\<rparr>
                        in
                        (case dialogue w of
                           CompletionThrows \<Rightarrow> (s1, [chat], failure)
                         | CompletionContent studentResponse \<Rightarrow>
                             (case addMessage s1 cid ''student'' studentResponse (clock w) of
                                (s2, None) \<Rightarrow> (s2, [chat], failure)
                              | (s2, Some updatedConversation) \<Rightarrow>
                                  (case studentResponse of
                                     None \<Rightarrow> (s2, [chat], failure)
                                   | Some reply \<Rightarrow>
                                       (case getLockedPrediction s2 cid of
                                          Some locked \<Rightarrow>
                                            (s2, [chat],
                                             Inr \<lparr>ir_conversation_id = cid, student_response = reply,
                                                  ir_turn_number = turnNumber updatedConversation,
                                                  is_complete = isComplete updatedConversation,
                                                  ir_estimated_level = Some (level locked)\<rparr>)
                                        | None \<Rightarrow>
                                            (let studentMessages =
                                                   filter (\<lambda>m. role m = ''student'')
                                                     (messages updatedConversation)
                                             in
                                             (if 5 \<le> length studentMessages then
                                                (let (s3, lv) = lockFromJudge s2 cid w
                                                 in (s3, [chat, JudgeChat],
                                                     Inr \<lparr>ir_conversation_id = cid,
                                                          student_response = reply,
                                                          ir_turn_number = turnNumber updatedConversation,
                                                          is_complete = isComplete updatedConversation,
                                                          ir_estimated_level = Some lv\<rparr>))
                                              else
                                                (s2, [chat],
                                                 Inr \<lparr>ir_conversation_id = cid,
                                                      student_response = reply,
                                                      ir_turn_number = turnNumber updatedConversation,
                                                      is_complete = isComplete updatedConversation,
                                                      ir_estimated_level = None\<rparr>))))))))))))))"

record tutor_request =
  tr_conversation_id :: "string option"

record tutor_reply =
  tutor_response :: string
  turn_number :: nat
  phase :: string
  estimated_level :: "json option"
  is_last_turn :: bool

text \<open>
  POST /api/tutor-response. The log line before the response reads
  \<^verbatim>\<open>tutorResponse.substring\<close> and so throws on null content, after the level lock ran.
\<close>

definition tutorResponse ::
  "store \<Rightarrow> tutor_request \<Rightarrow> world \<Rightarrow> store \<times> ext_call list \<times> (http_error + tutor_reply)" where
  "tutorResponse s req w =
     (if missing (tr_conversation_id req) then
        (s, [], Inl \<lparr>status = 400, error = ''conversation_id is required''\<rparr>)
      else
        (let cid = or_default (tr_conversation_id req) [] in
         (case getConversation s cid of
            None \<Rightarrow> (s, [], Inl \<lparr>status = 404, error = ''Conversation not found''\<rparr>)
          | Some conversation \<Rightarrow>
              (let turn = turnNumber conversation + 1;
                   maxT = maxTurns conversation;
                   chat = TutorChat (buildTutorMessages (lowerCase w) (tutor_prompt w) (topic conversation)
                                       (messages conversation) turn maxT);
                   failure = Inl \<lparr>status = 500, error = ''Failed to generate tutor response''\<rparr>
               in
               (case dialogue w of
                  CompletionThrows \<Rightarrow> (s, [chat], failure)
                | CompletionContent generated \<Rightarrow>
                    (let ph = (if turn \<le> 5 then ''diagnostic'' else ''tutoring'');
                         (s1, calls, estimatedLevel) =
                           (case getLockedPrediction s cid of
                              Some existingPrediction \<Rightarrow> (s, [], Some (level existingPrediction))
                            | None \<Rightarrow>
                                (if 6 \<le> turn then
                                   (let (s1, lv) = lockFromJudge s cid w
                                    in (s1, [JudgeChat], Some lv))
                                 else (s, [], None)))
                     in
                     (case generated of
                        None \<Rightarrow> (s1, chat # calls, failure)
                      | Some txt \<Rightarrow>
                          (s1, chat # calls,
                           Inr \<lparr>tutor_response = txt, turn_number = turn, phase = ph,
                                estimated_level = estimatedLevel,
                                is_last_turn = (maxT \<le> turn)\<rparr>))))))))"

section \<open>The strategy selector as the specification words it\<close>

text \<open>
  The definitions of this section follow the words of the specification and use none of
  the functions that model the code: they are what \<^verbatim>\<open>buildStrategyDirective\<close> is
  compared with.
\<close>

subsection \<open>Case-insensitive search and digits\<close>

text \<open>Two characters are the same letter when they are equal or one is the capital letter
  (code 65 to 90) of the other, 32 code positions below it.\<close>

definition upper_case :: "char \<Rightarrow> bool" where
  "upper_case c = (65 \<le> (of_char c :: nat) \<and> (of_char c :: nat) \<le> 90)"








subsection \<open>The marker lists\<close>

record markers =
  confusion :: "string list"
  hedging :: "string list"
  reasoning :: "string list"
  correction :: "string list"



subsection \<open>Heuristic level, confusion and branch\<close>



text \<open>The texts of the student-authored messages, in order (a missing text is empty).\<close>

definition text_of :: "message \<Rightarrow> string" where
  "text_of m = (case content m of None \<Rightarrow> [] | Some s \<Rightarrow> s)"

definition student_texts :: "message list \<Rightarrow> string list" where
  "student_texts msgs = map text_of (filter (\<lambda>m. role m = ''student'') msgs)"



datatype branch =
    Opening
  | DiagnosticClarify
  | DiagnosticProbe
  | TutoringResolve
  | TutoringTransfer
  | TutoringPractice


subsection \<open>The directive of each branch\<close>

text \<open>
  The text of the directive, by branch: the opening directive is fixed; every other one
  names the turn, the phase, the topic and the level, with the numbers given in decimal,
  and carries the instruction of its branch.
\<close>

fun instruction :: "branch \<Rightarrow> string" where
  "instruction Opening = []"
| "instruction DiagnosticClarify =
     ''If the student is confused, acknowledge it and give ONE short clarification, then ask ONE simple check question.''"
| "instruction DiagnosticProbe =
     ''Ask at most TWO short diagnostic questions. Require a brief reason for one.''"
| "instruction TutoringResolve =
     ''Start by resolving the confusion from the last turn in 2-3 sentences, then ask ONE focused check question.''"
| "instruction TutoringTransfer =
     ''Ask a transfer or 'why' question to probe depth. Require a 1-sentence justification.''"
| "instruction TutoringPractice =
     ''Give a concise explanation, then ask ONE practice question plus a short reason.''"

definition directive_text :: "branch \<Rightarrow> string \<Rightarrow> string \<Rightarrow> string \<Rightarrow> string \<Rightarrow> string \<Rightarrow> string" where
  "directive_text b turnText maxText ph topicName levelText =
     (if b = Opening then
        ''Adaptive strategy: Follow the TURN 1 Opening Survey structure exactly. Include the 3 questions labeled Basic/Intermediate/Advanced. Do not add extra questions beyond those three.''
      else
        ''Adaptive strategy: turn='' @ turnText @ ''/'' @ maxText @ '', phase='' @ ph
        @ '', topic='' @ topicName @ '', estimated_level='' @ levelText @ ''. '' @ instruction b
        @ '' Avoid long lectures and always respond to the last student message.'')"


section \<open>Example data\<close>

text \<open>A student, a topic and a store holding one fresh conversation, for the examples below.\<close>

definition demo_topic :: topic_info where
  "demo_topic = \<lparr>t_id = ''top1'', t_subject_id = ''sub1'', t_subject_name = ''Mathematics'',
                 t_name = ''Linear Equations'', t_grade_level = 8\<rparr>"

definition demo_student :: student_info where
  "demo_student = \<lparr>s_id = ''stu1'', s_name = ''Tim Weber'', s_grade_level = 8,
                   s_topics = [demo_topic]\<rparr>"

definition demo_id :: string where
  "demo_id = ''conv_u1''"

definition demo_conv :: conversation where
  "demo_conv = \<lparr>conv_id = ''conv_u1'', studentId = ''stu1'', topicId = ''top1'',
                 student = demo_student, topic = demo_topic, messages = [], turnNumber = 0,
                 maxTurns = 10, isComplete = False, createdAt = ''t0'', lockedPrediction = None\<rparr>"

definition demo_store :: store where
  "demo_store = fst (createConversation Map.empty ''u1'' ''stu1'' ''top1'' demo_student demo_topic ''t0'')"

definition demo_ops :: "store_op list" where
  "demo_ops = [OpAdd demo_id ''tutor'' (Some ''Hi Tim!'') ''t2'',
               OpLock demo_id (JNum 2) (JStr ''second writer'') ''t3'',
               OpEnd demo_id]"

text \<open>
  A request for that conversation and a world in which every service call succeeds: the
  student answers, and the judge returns the JSON text of the specification's example
  with its parse. No value in the examples is a string, array or object compared with a
  number, and every text in them is ASCII, so the examples do not depend on the conversions
  \<open>no_coercion\<close> and \<open>no_case_mapping\<close> they carry.
\<close>

definition no_coercion :: "json \<Rightarrow> coerced" where
  "no_coercion v = NaN"

definition no_case_mapping :: "string \<Rightarrow> string" where
  "no_case_mapping s = s"

definition demo_request :: interact_request where
  "demo_request = \<lparr>conversation_id = Some demo_id, tutor_message = Some ''What is 2 + 2?''\<rparr>"

definition demo_tutor_request :: tutor_request where
  "demo_tutor_request = \<lparr>tr_conversation_id = Some demo_id\<rparr>"

definition demo_world :: world where
  "demo_world =
     \<lparr>clock = ''t1'', student_prompt = Some ''You are Tim Weber'',
      tutor_prompt = ''You are an AI tutor'',
      dialogue = CompletionContent (Some ''It is 4 because 2 and 2 make 4''),
      judge = JudgeText ''{\"level\": 4, \"rationale\": \"clear reasoning\"}''
                (Some (JObj [(''level'', JNum 4), (''rationale'', JStr ''clear reasoning'')])),
      coerce = no_coercion, lowerCase = no_case_mapping\<rparr>"

text \<open>The same world, but the student's chat completion throws.\<close>

definition failing_world :: world where
  "failing_world = demo_world\<lparr>dialogue := CompletionThrows\<rparr>"

text \<open>The same world, but the judge answers with prose that is not JSON and has no digit.\<close>

definition garbled_world :: world where
  "garbled_world = demo_world\<lparr>judge := JudgeText ''I cannot rate this student.'' None\<rparr>"

text \<open>The store after a series of POST /api/interact requests, one per world.\<close>

definition after_turns :: "world list \<Rightarrow> store \<Rightarrow> store" where
  "after_turns ws s = fold (\<lambda>w s'. fst (interact s' demo_request w)) ws s"

text \<open>Five requests whose student call failed: five tutor messages, no student message.\<close>

definition stalled_store :: store where
  "stalled_store =
     after_turns [failing_world, failing_world, failing_world, failing_world, failing_world] demo_store"

text \<open>Four successful turns: the next student reply is the fifth.\<close>

definition four_turns_store :: store where
  "four_turns_store = after_turns [demo_world, demo_world, demo_world, demo_world] demo_store"

text \<open>Four successful turns and one whose student call failed: five tutor messages, four
  student messages.\<close>

definition one_failure_store :: store where
  "one_failure_store =
     after_turns [demo_world, demo_world, demo_world, demo_world, failing_world] demo_store"

text \<open>Ten successful turns: the session is complete.\<close>

definition completed_store :: store where
  "completed_store =
     after_turns [demo_world, demo_world, demo_world, demo_world, demo_world,
                  demo_world, demo_world, demo_world, demo_world, demo_world] demo_store"

text \<open>The world of a POST /api/tutor-response request: the tutor's text is generated.\<close>

definition tutor_world :: world where
  "tutor_world = demo_world\<lparr>dialogue := CompletionContent (Some ''Great work, Tim!'')\<rparr>"

text \<open>Ten requests whose student call failed: the session is complete without a student
  message and without a locked level.\<close>

definition exhausted_store :: store where
  "exhausted_store =
     after_turns [failing_world, failing_world, failing_world, failing_world, failing_world,
                  failing_world, failing_world, failing_world, failing_world, failing_world] demo_store"


section \<open>Properties of the session store\<close>

lemma pushMessage_turnNumber:
  "turnNumber (pushMessage c r txt now) = turnNumber c + (if r = ''tutor'' then 1 else 0)"
  by (simp add: pushMessage_def Let_def)

text \<open>What one operation does to a session that it neither deletes nor re-creates.\<close>

lemma apply_op_session:
  assumes "s cid = Some c" and "within_life cid op"
  obtains
    (same) "apply_op s op cid = Some c" and "\<not> is_tutor_append cid op" and "\<not> is_end_of cid op"
  | (add) r msg now where "op = OpAdd cid r msg now"
      and "apply_op s op cid = Some (pushMessage c r msg now)"
  | (ended) "op = OpEnd cid" and "apply_op s op cid = Some (c\<lparr>isComplete := True\<rparr>)"
  | (locked) lv rat now where "op = OpLock cid lv rat now" and "lockedPrediction c = None"
      and "apply_op s op cid = Some (c\<lparr>lockedPrediction :=
         Some \<lparr>level = lv, rationale = rat, lockedAtTurn = turnNumber c, lockedAt = now\<rparr>\<rparr>)"
proof (cases op)
  case (OpCreate uuid sid tid st tp now)
  with assms have "apply_op s op cid = Some c"
    by (simp add: createConversation_def Let_def)
  with OpCreate same show ?thesis by simp
next
  case (OpAdd d r msg now)
  show ?thesis
  proof (cases "d = cid")
    case True
    with OpAdd assms have "apply_op s op cid = Some (pushMessage c r msg now)"
      by (simp add: addMessage_def)
    with OpAdd True add show ?thesis by simp
  next
    case False
    with OpAdd assms have "apply_op s op cid = Some c"
      by (simp add: addMessage_def split: option.splits)
    with OpAdd False same show ?thesis by simp
  qed
next
  case (OpEnd d)
  show ?thesis
  proof (cases "d = cid")
    case True
    with OpEnd assms have "apply_op s op cid = Some (c\<lparr>isComplete := True\<rparr>)"
      by (simp add: endConversation_def)
    with OpEnd True ended show ?thesis by simp
  next
    case False
    with OpEnd assms have "apply_op s op cid = Some c"
      by (simp add: endConversation_def split: option.splits)
    with OpEnd False same show ?thesis by simp
  qed
next
  case (OpLock d lv rat now)
  show ?thesis
  proof (cases "d = cid \<and> lockedPrediction c = None")
    case True
    with OpLock assms have "apply_op s op cid = Some (c\<lparr>lockedPrediction :=
         Some \<lparr>level = lv, rationale = rat, lockedAtTurn = turnNumber c, lockedAt = now\<rparr>\<rparr>)"
      by (simp add: setLockedPrediction_def Let_def)
    with OpLock True locked show ?thesis by simp
  next
    case False
    with OpLock assms have "apply_op s op cid = Some c"
      by (auto simp add: setLockedPrediction_def Let_def split: option.splits)
    with OpLock same show ?thesis by simp
  qed
next
  case (OpDelete d)
  with assms have "apply_op s op cid = Some c"
    by (simp add: deleteConversation_def)
  with OpDelete same show ?thesis by simp
qed

lemma run_ops_Cons: "run_ops s (op # ops) = run_ops (apply_op s op) ops"
  by (simp add: run_ops_def)

lemma run_ops_append: "run_ops s (xs @ ys) = run_ops (run_ops s xs) ys"
  by (simp add: run_ops_def)

lemma pushMessage_maxTurns: "maxTurns (pushMessage c r txt now) = maxTurns c"
  by (simp add: pushMessage_def Let_def)

lemma pushMessage_isComplete:
  "isComplete (pushMessage c r txt now) \<longleftrightarrow>
     isComplete c \<or> maxTurns c \<le> turnNumber (pushMessage c r txt now)"
  by (simp add: pushMessage_def Let_def)

lemma pushMessage_lockedPrediction: "lockedPrediction (pushMessage c r txt now) = lockedPrediction c"
  by (simp add: pushMessage_def Let_def)

lemma run_ops_turnNumber:
  assumes "s cid = Some c" and "list_all (within_life cid) ops"
  shows "\<exists>c'. run_ops s ops cid = Some c'
          \<and> turnNumber c' = turnNumber c + length (filter (is_tutor_append cid) ops)"
  using assms
proof (induction ops arbitrary: s c)
  case Nil
  then show ?case by (simp add: run_ops_def)
next
  case (Cons op ops)
  from Cons.prems have life: "within_life cid op" and rest: "list_all (within_life cid) ops"
    by simp_all
  from Cons.prems(1) life
  obtain c1 where c1: "apply_op s op cid = Some c1"
    and t1: "turnNumber c1 = turnNumber c + (if is_tutor_append cid op then 1 else 0)"
    by (cases rule: apply_op_session) (auto simp: pushMessage_turnNumber)
  from Cons.IH [of "apply_op s op" c1, OF c1 rest] t1 show ?case
    by (auto simp: run_ops_Cons)
qed

lemma run_ops_flag:
  assumes "s cid = Some c" and "list_all (within_life cid) ops"
    and "isComplete c \<longleftrightarrow> maxTurns c \<le> turnNumber c \<or> E"
  shows "\<exists>c'. run_ops s ops cid = Some c' \<and> maxTurns c' = maxTurns c
          \<and> (isComplete c' \<longleftrightarrow>
               maxTurns c' \<le> turnNumber c' \<or> E \<or> list_ex (is_end_of cid) ops)"
  using assms
proof (induction ops arbitrary: s c E)
  case Nil
  then show ?case by (simp add: run_ops_def)
next
  case (Cons op ops)
  from Cons.prems have life: "within_life cid op" and rest: "list_all (within_life cid) ops"
    by simp_all
  from Cons.prems(1) life
  obtain c1 where c1: "apply_op s op cid = Some c1"
    and m1: "maxTurns c1 = maxTurns c"
    and f1: "isComplete c1 \<longleftrightarrow> maxTurns c1 \<le> turnNumber c1 \<or> (E \<or> is_end_of cid op)"
  proof (cases rule: apply_op_session)
    case same
    with Cons.prems(3) that show ?thesis by simp
  next
    case (add r msg now)
    with Cons.prems(3) that [of "pushMessage c r msg now"] show ?thesis
      by (auto simp: pushMessage_maxTurns pushMessage_isComplete pushMessage_turnNumber)
  next
    case ended
    with that [of "c\<lparr>isComplete := True\<rparr>"] show ?thesis by simp
  next
    case (locked lv rat now)
    with Cons.prems(3) that show ?thesis by simp
  qed
  from Cons.IH [of "apply_op s op" c1, OF c1 rest f1] m1 show ?case
    by (auto simp: run_ops_Cons)
qed

lemma run_ops_monotone:
  assumes "s cid = Some c" and "list_all (within_life cid) ops"
  shows "\<exists>c'. run_ops s ops cid = Some c' \<and> (isComplete c \<longrightarrow> isComplete c')"
  using assms
proof (induction ops arbitrary: s c)
  case Nil
  then show ?case by (simp add: run_ops_def)
next
  case (Cons op ops)
  from Cons.prems have life: "within_life cid op" and rest: "list_all (within_life cid) ops"
    by simp_all
  from Cons.prems(1) life
  obtain c1 where c1: "apply_op s op cid = Some c1" and f1: "isComplete c \<longrightarrow> isComplete c1"
    by (cases rule: apply_op_session) (auto simp: pushMessage_isComplete)
  from Cons.IH [of "apply_op s op" c1, OF c1 rest] f1 show ?case
    by (auto simp: run_ops_Cons)
qed

lemma run_ops_locked:
  assumes "s cid = Some c" and "list_all (within_life cid) ops" and "lockedPrediction c = Some p"
  shows "\<exists>c'. run_ops s ops cid = Some c' \<and> lockedPrediction c' = Some p"
  using assms
proof (induction ops arbitrary: s c)
  case Nil
  then show ?case by (simp add: run_ops_def)
next
  case (Cons op ops)
  from Cons.prems have life: "within_life cid op" and rest: "list_all (within_life cid) ops"
    by simp_all
  from Cons.prems(1) life Cons.prems(3)
  obtain c1 where c1: "apply_op s op cid = Some c1" and f1: "lockedPrediction c1 = Some p"
    by (cases rule: apply_op_session) (auto simp: pushMessage_lockedPrediction)
  from Cons.IH [of "apply_op s op" c1, OF c1 rest f1] show ?case
    by (auto simp: run_ops_Cons)
qed


lemma demo_store_conv: "demo_store demo_id = Some demo_conv"
  by (simp add: demo_store_def demo_id_def demo_conv_def createConversation_def MAX_TURNS_def Let_def)

text \<open>
  Claim C1. The locked level of a session is set at most once. A call of
  \<^verbatim>\<open>setLockedPrediction\<close> on a session whose locked prediction is unset stores the given
  level and rationale (with the current turn number and time) and returns that record;
  after it, whatever operations run on the store during the session's life, every further
  call, with any arguments, leaves the store as it is and returns the first record.
\<close>

theorem setLockedPrediction_first_writer_wins:
  assumes "s cid = Some c" and "lockedPrediction c = None"
    and "list_all (within_life cid) ops"
  shows "setLockedPrediction s cid lv rat now =
           (s(cid \<mapsto> c\<lparr>lockedPrediction :=
                Some \<lparr>level = lv, rationale = rat, lockedAtTurn = turnNumber c, lockedAt = now\<rparr>\<rparr>),
            Some \<lparr>level = lv, rationale = rat, lockedAtTurn = turnNumber c, lockedAt = now\<rparr>)
       \<and> setLockedPrediction (run_ops (fst (setLockedPrediction s cid lv rat now)) ops) cid lv' rat' now' =
           (run_ops (fst (setLockedPrediction s cid lv rat now)) ops,
            Some \<lparr>level = lv, rationale = rat, lockedAtTurn = turnNumber c, lockedAt = now\<rparr>)"
proof -
  let ?p = "\<lparr>level = lv, rationale = rat, lockedAtTurn = turnNumber c, lockedAt = now\<rparr>"
  let ?c1 = "c\<lparr>lockedPrediction := Some ?p\<rparr>"
  have first: "setLockedPrediction s cid lv rat now = (s(cid \<mapsto> ?c1), Some ?p)"
    using assms(1,2) by (simp add: setLockedPrediction_def Let_def)
  have "(s(cid \<mapsto> ?c1)) cid = Some ?c1" and "lockedPrediction ?c1 = Some ?p"
    by simp_all
  from run_ops_locked [of "s(cid \<mapsto> ?c1)" cid ?c1 ops ?p, OF this(1) assms(3) this(2)]
  obtain c2 where "run_ops (s(cid \<mapsto> ?c1)) ops cid = Some c2" and "lockedPrediction c2 = Some ?p"
    by blast
  then have "setLockedPrediction (run_ops (s(cid \<mapsto> ?c1)) ops) cid lv' rat' now' =
      (run_ops (s(cid \<mapsto> ?c1)) ops, Some ?p)"
    by (simp add: setLockedPrediction_def)
  with first show ?thesis by simp
qed

theorem setLockedPrediction_first_writer_wins_witness:
  "demo_store demo_id = Some demo_conv \<and> lockedPrediction demo_conv = None
   \<and> list_all (within_life demo_id) demo_ops
   \<and> snd (setLockedPrediction demo_store demo_id (JNum 4) (JStr ''clear reasoning'') ''t1'') =
       Some \<lparr>level = JNum 4, rationale = JStr ''clear reasoning'', lockedAtTurn = 0, lockedAt = ''t1''\<rparr>
   \<and> snd (setLockedPrediction
            (run_ops (fst (setLockedPrediction demo_store demo_id (JNum 4) (JStr ''clear reasoning'') ''t1''))
               demo_ops)
            demo_id (JNum 1) (JStr ''late writer'') ''t4'') =
       Some \<lparr>level = JNum 4, rationale = JStr ''clear reasoning'', lockedAtTurn = 0, lockedAt = ''t1''\<rparr>"
proof -
  have h1: "demo_store demo_id = Some demo_conv" by (rule demo_store_conv)
  have h2: "lockedPrediction demo_conv = None" by (simp add: demo_conv_def)
  have h3: "list_all (within_life demo_id) demo_ops" by (simp add: demo_ops_def demo_id_def)
  have t0: "turnNumber demo_conv = 0" by (simp add: demo_conv_def)
  from setLockedPrediction_first_writer_wins [of demo_store demo_id demo_conv demo_ops
      "JNum 4" "JStr ''clear reasoning''" "''t1''" "JNum 1" "JStr ''late writer''" "''t4''", OF h1 h2 h3]
    h1 h2 h3 t0
  show ?thesis by (elim conjE) simp
qed

text \<open>
  Claim C4 as stated (the flag is true if and only if the turn counter has reached
  \<^verbatim>\<open>maxTurns\<close>, after every sequence of store operations) fails: \<^verbatim>\<open>endConversation\<close>
  sets the flag of a fresh session, whose turn counter is 0 of 10.
\<close>

theorem isComplete_counterexample:
  "map_option isComplete (run_ops Map.empty
      [OpCreate ''u1'' ''stu1'' ''top1'' demo_student demo_topic ''t0'', OpEnd ''conv_u1''] ''conv_u1'') = Some True
   \<and> map_option turnNumber (run_ops Map.empty
      [OpCreate ''u1'' ''stu1'' ''top1'' demo_student demo_topic ''t0'', OpEnd ''conv_u1''] ''conv_u1'') = Some 0
   \<and> map_option maxTurns (run_ops Map.empty
      [OpCreate ''u1'' ''stu1'' ''top1'' demo_student demo_topic ''t0'', OpEnd ''conv_u1''] ''conv_u1'') = Some 10"
  by (simp add: run_ops_def createConversation_def endConversation_def MAX_TURNS_def Let_def)

text \<open>
  Claim C4, as amended. From its creation on, the completion flag of a session is true
  exactly when the turn counter has reached \<^verbatim>\<open>maxTurns\<close> or \<^verbatim>\<open>endConversation\<close> has been
  called on the session; and once the flag is true, it is true after any further operations.
\<close>

theorem isComplete_iff_turns_or_ended:
  assumes "s0 = fst (createConversation s uuid sid tid st tp now)" and "cid = ''conv_'' @ uuid"
    and "list_all (within_life cid) (ops1 @ ops2)"
  shows "\<exists>c1 c2. run_ops s0 ops1 cid = Some c1 \<and> run_ops s0 (ops1 @ ops2) cid = Some c2
          \<and> (isComplete c1 \<longleftrightarrow> maxTurns c1 \<le> turnNumber c1 \<or> list_ex (is_end_of cid) ops1)
          \<and> (isComplete c1 \<longrightarrow> isComplete c2)"
proof -
  let ?c0 = "\<lparr>conv_id = cid, studentId = sid, topicId = tid, student = st,
               topic = tp, messages = [], turnNumber = 0, maxTurns = MAX_TURNS,
               isComplete = False, createdAt = now, lockedPrediction = None\<rparr>"
  have start: "s0 cid = Some ?c0"
    using assms(1,2) by (simp add: createConversation_def Let_def)
  have inv0: "isComplete ?c0 \<longleftrightarrow> maxTurns ?c0 \<le> turnNumber ?c0 \<or> False"
    by (simp add: MAX_TURNS_def)
  from assms(3) have l1: "list_all (within_life cid) ops1" and l2: "list_all (within_life cid) ops2"
    by simp_all
  from run_ops_flag [of s0 cid ?c0 ops1 False, OF start l1 inv0]
  obtain c1 where c1: "run_ops s0 ops1 cid = Some c1"
    and f1: "isComplete c1 \<longleftrightarrow> maxTurns c1 \<le> turnNumber c1 \<or> list_ex (is_end_of cid) ops1"
    by auto
  from run_ops_monotone [of "run_ops s0 ops1" cid c1 ops2, OF c1 l2]
  obtain c2 where "run_ops (run_ops s0 ops1) ops2 cid = Some c2" and "isComplete c1 \<longrightarrow> isComplete c2"
    by blast
  with c1 f1 show ?thesis by (auto simp: run_ops_append)
qed

theorem isComplete_iff_turns_or_ended_witness:
  "demo_store = fst (createConversation Map.empty ''u1'' ''stu1'' ''top1'' demo_student demo_topic ''t0'')
   \<and> demo_id = ''conv_'' @ ''u1''
   \<and> list_all (within_life demo_id) ([OpAdd demo_id ''tutor'' (Some ''Hi Tim!'') ''t1''] @ [OpEnd demo_id])
   \<and> map_option isComplete (run_ops demo_store [OpAdd demo_id ''tutor'' (Some ''Hi Tim!'') ''t1''] demo_id)
       = Some False
   \<and> map_option isComplete
       (run_ops demo_store ([OpAdd demo_id ''tutor'' (Some ''Hi Tim!'') ''t1''] @ [OpEnd demo_id]) demo_id)
       = Some True"
proof -
  have h1: "demo_store = fst (createConversation Map.empty ''u1'' ''stu1'' ''top1'' demo_student demo_topic ''t0'')"
    by (simp add: demo_store_def)
  have h2: "demo_id = ''conv_'' @ ''u1''" by (simp add: demo_id_def)
  have h3: "list_all (within_life demo_id) ([OpAdd demo_id ''tutor'' (Some ''Hi Tim!'') ''t1''] @ [OpEnd demo_id])"
    by simp
  from isComplete_iff_turns_or_ended [of demo_store Map.empty "''u1''" "''stu1''" "''top1''" demo_student
      demo_topic "''t0''" demo_id "[OpAdd demo_id ''tutor'' (Some ''Hi Tim!'') ''t1'']" "[OpEnd demo_id]",
      OF h1 h2 h3]
  obtain c1 c2 where "run_ops demo_store [OpAdd demo_id ''tutor'' (Some ''Hi Tim!'') ''t1''] demo_id = Some c1"
    and "run_ops demo_store ([OpAdd demo_id ''tutor'' (Some ''Hi Tim!'') ''t1''] @ [OpEnd demo_id]) demo_id = Some c2"
    and "isComplete c1 \<longleftrightarrow> maxTurns c1 \<le> turnNumber c1 \<or> list_ex (is_end_of demo_id) [OpAdd demo_id ''tutor'' (Some ''Hi Tim!'') ''t1'']"
    by blast
  then show ?thesis using h1 h2 h3
    by (auto simp: run_ops_def addMessage_def endConversation_def demo_store_conv pushMessage_def
        demo_conv_def Let_def)
qed

text \<open>
  Claim C9. During the life of a session the turn counter after any sequence of store
  operations is the counter before plus the number of appends to this session with the role
  \<^verbatim>\<open>tutor\<close>: each such append adds exactly one, nothing else changes the counter, and so
  it never decreases.
\<close>

theorem turnNumber_counts_tutor_appends:
  assumes "s cid = Some c" and "list_all (within_life cid) ops"
  shows "\<exists>c'. run_ops s ops cid = Some c'
          \<and> turnNumber c' = turnNumber c + length (filter (is_tutor_append cid) ops)
          \<and> turnNumber c \<le> turnNumber c'"
  using run_ops_turnNumber [of s cid c ops, OF assms] by auto

theorem turnNumber_counts_tutor_appends_witness:
  "demo_store demo_id = Some demo_conv
   \<and> list_all (within_life demo_id)
       [OpAdd demo_id ''tutor'' (Some ''Hi Tim!'') ''t1'', OpAdd demo_id ''student'' (Some ''hello'') ''t2'',
        OpAdd demo_id ''system'' None ''t3'', OpEnd demo_id, OpAdd demo_id ''tutor'' (Some ''Next'') ''t4'']
   \<and> map_option turnNumber
        (run_ops demo_store
          [OpAdd demo_id ''tutor'' (Some ''Hi Tim!'') ''t1'', OpAdd demo_id ''student'' (Some ''hello'') ''t2'',
           OpAdd demo_id ''system'' None ''t3'', OpEnd demo_id, OpAdd demo_id ''tutor'' (Some ''Next'') ''t4'']
          demo_id) = Some 2"
proof -
  let ?ops = "[OpAdd demo_id ''tutor'' (Some ''Hi Tim!'') ''t1'', OpAdd demo_id ''student'' (Some ''hello'') ''t2'',
        OpAdd demo_id ''system'' None ''t3'', OpEnd demo_id, OpAdd demo_id ''tutor'' (Some ''Next'') ''t4'']"
  have h1: "demo_store demo_id = Some demo_conv" by (rule demo_store_conv)
  have h2: "list_all (within_life demo_id) ?ops" by simp
  have t0: "turnNumber demo_conv = 0" by (simp add: demo_conv_def)
  from turnNumber_counts_tutor_appends [of demo_store demo_id demo_conv ?ops, OF h1 h2] h1 h2 t0
  show ?thesis by auto
qed

text \<open>
  Claim C10. For an id under which no conversation is stored,
  \<^verbatim>\<open>isConversationComplete\<close> returns true.
\<close>

theorem isConversationComplete_unknown:
  "s cid = None \<Longrightarrow> isConversationComplete s cid = True"
  by (simp add: isConversationComplete_def)

theorem isConversationComplete_unknown_witness:
  "demo_store ''conv_other'' = None \<and> isConversationComplete demo_store ''conv_other'' = True"
proof -
  have h: "demo_store ''conv_other'' = None"
    by (simp add: demo_store_def createConversation_def Let_def)
  from isConversationComplete_unknown [of demo_store "''conv_other''", OF h] h show ?thesis by simp
qed

section \<open>Properties of the strategy selector\<close>



text \<open>The table of \<open>lower_char\<close> maps the capital letters, 32 code positions up, and nothing
  else.\<close>

lemma upper_case_iff: "upper_case c \<longleftrightarrow> c \<in> set ''ABCDEFGHIJKLMNOPQRSTUVWXYZ''"
proof
  assume "upper_case c"
  then have "\<exists>d \<in> set ''ABCDEFGHIJKLMNOPQRSTUVWXYZ''. (of_char c :: nat) = of_char d"
    by (simp add: upper_case_def del: of_char_eq_iff) arith
  then obtain d where "d \<in> set ''ABCDEFGHIJKLMNOPQRSTUVWXYZ''"
    and "(of_char c :: nat) = of_char d" by blast
  then show "c \<in> set ''ABCDEFGHIJKLMNOPQRSTUVWXYZ''" by (simp only: of_char_eq_iff)
next
  assume "c \<in> set ''ABCDEFGHIJKLMNOPQRSTUVWXYZ''"
  then show "upper_case c" by (auto simp: upper_case_def)
qed

lemma lower_char_upper: "upper_case c \<Longrightarrow> (of_char (lower_char c) :: nat) = of_char c + 32"
  unfolding upper_case_iff by (auto simp: lower_char_def)

lemma lower_char_other: "\<not> upper_case c \<Longrightarrow> lower_char c = c"
  unfolding upper_case_iff by (auto simp: lower_char_def)

lemma lower_char_not_upper: "\<not> upper_case (lower_char c)"
proof (cases "upper_case c")
  case True
  then have "(of_char (lower_char c) :: nat) = of_char c + 32" by (rule lower_char_upper)
  with True show ?thesis by (simp add: upper_case_def)
next
  case False
  then show ?thesis by (simp add: lower_char_other)
qed





























text \<open>The scenarios of the specification, run on the code.\<close>

lemma confused_student_scenario:
  "buildStrategyDirective no_case_mapping 6 10 ''tutoring'' demo_topic
     [\<lparr>role = ''student'', content = Some ''I don't understand this at all'', timestamp = ''t1''\<rparr>] =
   directive_text TutoringResolve ''6'' ''10'' ''tutoring'' ''Linear Equations'' ''2''"
  by (simp add: buildStrategyDirective_def quickEstimateForStrategy_def slice_last_def score_step_def
      some_included_def CONFUSION_MARKERS_def hedgeMarkers_def reasonMarkers_def toLowerCase_def
      is_ascii_def lower_char_def is_digit_def demo_topic_def directive_text_def)

section \<open>Properties of the request handlers\<close>

lemma setLockedPrediction_fresh:
  assumes "s cid = Some c" and "lockedPrediction c = None"
  shows "fst (setLockedPrediction s cid lv rat now) =
           s(cid \<mapsto> c\<lparr>lockedPrediction :=
               Some \<lparr>level = lv, rationale = rat, lockedAtTurn = turnNumber c, lockedAt = now\<rparr>\<rparr>)"
  using assms by (simp add: setLockedPrediction_def Let_def)

lemma lockFromJudge_fresh:
  assumes "s cid = Some c" and "lockedPrediction c = None"
  shows "\<exists>lv rat. fst (lockFromJudge s cid w) =
           s(cid \<mapsto> c\<lparr>lockedPrediction :=
               Some \<lparr>level = lv, rationale = rat, lockedAtTurn = turnNumber c, lockedAt = clock w\<rparr>\<rparr>)
         \<and> snd (lockFromJudge s cid w) = lv
         \<and> (lv, rat) = (case judge w of
                          JudgeText raw parsed \<Rightarrow> interpretPrediction (coerce w) raw parsed
                        | JudgeThrows \<Rightarrow> (JNum 3, JStr ''Default (prediction failed)'')
                        | JudgeNull \<Rightarrow> (JNum 3, JStr ''Default (prediction failed)''))"
  using assms
  by (cases "judge w")
     (auto simp: lockFromJudge_def setLockedPrediction_fresh split: prod.splits)

lemma pushMessage_messages:
  "messages (pushMessage c r txt now) = messages c @ [\<lparr>role = r, content = txt, timestamp = now\<rparr>]"
  by (simp add: pushMessage_def Let_def)

lemma interact_judge_iff:
  "JudgeChat \<in> set (fst (snd (interact s req w))) \<longleftrightarrow>
     (\<not> missing (conversation_id req) \<and> \<not> missing (tutor_message req) \<and>
      (\<exists>c reply. s (or_default (conversation_id req) []) = Some c \<and> \<not> isComplete c
         \<and> student_prompt w \<noteq> None \<and> dialogue w = CompletionContent (Some reply)
         \<and> lockedPrediction c = None
         \<and> 5 \<le> length (filter (\<lambda>m. role m = ''student'') (messages c)) + 1))"
  by (auto simp: interact_def getConversation_def addMessage_def getLockedPrediction_def Let_def
        pushMessage_messages pushMessage_lockedPrediction
        split: option.splits completion.splits prod.splits)


lemma tutorResponse_judge_iff:
  "JudgeChat \<in> set (fst (snd (tutorResponse s req w))) \<longleftrightarrow>
     (\<not> missing (tr_conversation_id req) \<and>
      (\<exists>c. s (or_default (tr_conversation_id req) []) = Some c
         \<and> dialogue w \<noteq> CompletionThrows
         \<and> lockedPrediction c = None
         \<and> 6 \<le> turnNumber c + 1))"
  by (auto simp: tutorResponse_def getConversation_def getLockedPrediction_def Let_def
        split: option.splits completion.splits prod.splits)

lemma interact_messages_after:
  assumes "JudgeChat \<in> set (fst (snd (interact s req w)))"
    and "s (or_default (conversation_id req) []) = Some c"
  shows "\<exists>c'. fst (interact s req w) (or_default (conversation_id req) []) = Some c'
           \<and> lockedPrediction c' \<noteq> None
           \<and> length (filter (\<lambda>m. role m = ''student'') (messages c')) =
               length (filter (\<lambda>m. role m = ''student'') (messages c)) + 1"
proof -
  let ?cid = "or_default (conversation_id req) []"
  from assms obtain reply where ok: "\<not> missing (conversation_id req)" "\<not> missing (tutor_message req)"
    "\<not> isComplete c" "student_prompt w \<noteq> None" "dialogue w = CompletionContent (Some reply)"
    "lockedPrediction c = None"
    "5 \<le> length (filter (\<lambda>m. role m = ''student'') (messages c)) + 1"
    by (auto simp: interact_judge_iff)
  let ?c2 = "pushMessage (pushMessage c ''tutor'' (tutor_message req) (clock w)) ''student'' (Some reply) (clock w)"
  let ?s2 = "s(?cid \<mapsto> ?c2)"
  have s2: "?s2 ?cid = Some ?c2" by simp
  have l2: "lockedPrediction ?c2 = None"
    using ok(6) by (simp add: pushMessage_lockedPrediction)
  have m2: "length (filter (\<lambda>m. role m = ''student'') (messages ?c2)) =
            length (filter (\<lambda>m. role m = ''student'') (messages c)) + 1"
    by (simp add: pushMessage_messages)
  from lockFromJudge_fresh [of ?s2 ?cid ?c2 w, OF s2 l2]
  obtain lv rat where lk: "fst (lockFromJudge ?s2 ?cid w) =
      ?s2(?cid \<mapsto> ?c2\<lparr>lockedPrediction :=
          Some \<lparr>level = lv, rationale = rat, lockedAtTurn = turnNumber ?c2, lockedAt = clock w\<rparr>\<rparr>)"
    by blast
  have "fst (interact s req w) = fst (lockFromJudge ?s2 ?cid w)"
    using ok assms(2) m2
    by (auto simp: interact_def getConversation_def addMessage_def getLockedPrediction_def Let_def
        pushMessage_lockedPrediction split: option.splits prod.splits)
  with lk m2 show ?thesis by simp
qed

text \<open>The definitions unfolded to run the handlers on the example data.\<close>

lemmas example_defs = no_coercion_def no_case_mapping_def one_failure_store_def demo_request_def demo_tutor_request_def demo_world_def failing_world_def
  garbled_world_def tutor_world_def after_turns_def stalled_store_def four_turns_store_def completed_store_def
  exhausted_store_def demo_store_def demo_id_def demo_topic_def demo_student_def

lemmas handler_defs = createConversation_def MAX_TURNS_def interact_def tutorResponse_def
  getConversation_def addMessage_def pushMessage_def getLockedPrediction_def setLockedPrediction_def
  lockFromJudge_def interpretPrediction_def rationale_or_empty_def digit_fallback_def digit_value_def
  getOpenAIMessages_def student_texts_def text_of_def Let_def

text \<open>
  When each handler runs the level lock. POST /api/interact runs it exactly when the
  student's reply has been obtained, the session had no locked level, and the log, with the
  reply appended, holds at least 5 student messages. POST /api/tutor-response runs it
  exactly when the tutor's text has been generated, the session has no locked level, and
  the upcoming turn number (the turn counter plus one) is at least 6.
\<close>

lemma levelLock_trigger_conditions:
  "(JudgeChat \<in> set (fst (snd (interact s req w))) \<longleftrightarrow>
      \<not> missing (conversation_id req) \<and> \<not> missing (tutor_message req) \<and>
      (\<exists>c c' reply. s (or_default (conversation_id req) []) = Some c \<and> \<not> isComplete c
         \<and> student_prompt w \<noteq> None \<and> dialogue w = CompletionContent (Some reply)
         \<and> lockedPrediction c = None
         \<and> fst (interact s req w) (or_default (conversation_id req) []) = Some c'
         \<and> 5 \<le> length (filter (\<lambda>m. role m = ''student'') (messages c'))))
   \<and> (JudgeChat \<in> set (fst (snd (tutorResponse s treq w))) \<longleftrightarrow>
      \<not> missing (tr_conversation_id treq) \<and>
      (\<exists>c. s (or_default (tr_conversation_id treq) []) = Some c
         \<and> dialogue w \<noteq> CompletionThrows
         \<and> lockedPrediction c = None
         \<and> 6 \<le> turnNumber c + 1))"
proof -
  let ?cid = "or_default (conversation_id req) []"
  let ?P = "\<lambda>c reply. s ?cid = Some c \<and> \<not> isComplete c
         \<and> student_prompt w \<noteq> None \<and> dialogue w = CompletionContent (Some reply)
         \<and> lockedPrediction c = None"
  have fwd: "\<exists>c c' reply. ?P c reply \<and> fst (interact s req w) ?cid = Some c'
         \<and> 5 \<le> length (filter (\<lambda>m. role m = ''student'') (messages c'))"
    if j: "JudgeChat \<in> set (fst (snd (interact s req w)))"
  proof -
    from j obtain c reply where p: "?P c reply"
      and n: "5 \<le> length (filter (\<lambda>m. role m = ''student'') (messages c)) + 1"
      unfolding interact_judge_iff by blast
    from interact_messages_after [OF j, of c] p
    obtain c' where "fst (interact s req w) ?cid = Some c'"
      and "length (filter (\<lambda>m. role m = ''student'') (messages c')) =
           length (filter (\<lambda>m. role m = ''student'') (messages c)) + 1"
      by blast
    with p n show ?thesis by auto
  qed
  have bwd: "JudgeChat \<in> set (fst (snd (interact s req w)))"
    if v: "\<not> missing (conversation_id req)" "\<not> missing (tutor_message req)"
      and p: "?P c reply" and c': "fst (interact s req w) ?cid = Some c'"
      and n: "5 \<le> length (filter (\<lambda>m. role m = ''student'') (messages c'))"
    for c c' reply
  proof (rule ccontr)
    assume no: "JudgeChat \<notin> set (fst (snd (interact s req w)))"
    with v p have few: "\<not> 5 \<le> length (filter (\<lambda>m. role m = ''student'') (messages c)) + 1"
      unfolding interact_judge_iff by blast
    let ?c2 = "pushMessage (pushMessage c ''tutor'' (tutor_message req) (clock w)) ''student'' (Some reply) (clock w)"
    have "fst (interact s req w) = s(?cid \<mapsto> ?c2)"
      using v p few
      by (auto simp: interact_def getConversation_def addMessage_def getLockedPrediction_def Let_def
          pushMessage_lockedPrediction pushMessage_messages split: option.splits prod.splits)
    with c' have "c' = ?c2" by simp
    with n few show False by (simp add: pushMessage_messages)
  qed
  from fwd bwd interact_judge_iff [of s req w] tutorResponse_judge_iff [of s treq w]
  show ?thesis by blast
qed

text \<open>
  As long as every tutor turn has had its student reply, the turn counter is the number of
  student messages and the two triggers agree: POST /api/tutor-response then runs the level
  lock exactly when no level is locked and the log holds at least 5 student messages.
\<close>

lemma tutorResponse_trigger_in_lockstep:
  assumes "s (or_default (tr_conversation_id treq) []) = Some c"
    and "turnNumber c = length (student_texts (messages c))"
  shows "JudgeChat \<in> set (fst (snd (tutorResponse s treq w))) \<longleftrightarrow>
           \<not> missing (tr_conversation_id treq) \<and> dialogue w \<noteq> CompletionThrows
           \<and> lockedPrediction c = None \<and> 5 \<le> length (student_texts (messages c))"
  using assms by (auto simp: tutorResponse_judge_iff)

text \<open>
  Claim C2 at a failing input. The level lock is to run once the log holds at least 5
  student messages and no level is locked, not on a count of tutor turns. POST
  /api/tutor-response tests the upcoming turn number instead, and the turn counter runs
  ahead of the student messages as soon as one student call of POST /api/interact has
  failed. After four answered turns and one failed one the log holds 4 student messages,
  after five failed turns none; in both sessions no level is locked, and in both the
  request runs the judge and locks a level at turn 5. POST /api/interact on the second
  session, whose log then holds one student message, does not run the judge.
\<close>

theorem tutorResponse_judges_without_five_replies:
  "map_option (length \<circ> student_texts \<circ> messages) (one_failure_store demo_id) = Some 4
   \<and> map_option turnNumber (one_failure_store demo_id) = Some 5
   \<and> map_option lockedPrediction (one_failure_store demo_id) = Some None
   \<and> JudgeChat \<in> set (fst (snd (tutorResponse one_failure_store demo_tutor_request tutor_world)))
   \<and> getLockedPrediction (fst (tutorResponse one_failure_store demo_tutor_request tutor_world)) demo_id =
       Some \<lparr>level = JNum 4, rationale = JStr ''clear reasoning'', lockedAtTurn = 5, lockedAt = ''t1''\<rparr>
   \<and> map_option (student_texts \<circ> messages) (stalled_store demo_id) = Some []
   \<and> map_option turnNumber (stalled_store demo_id) = Some 5
   \<and> map_option lockedPrediction (stalled_store demo_id) = Some None
   \<and> JudgeChat \<in> set (fst (snd (tutorResponse stalled_store demo_tutor_request tutor_world)))
   \<and> getLockedPrediction (fst (tutorResponse stalled_store demo_tutor_request tutor_world)) demo_id =
       Some \<lparr>level = JNum 4, rationale = JStr ''clear reasoning'', lockedAtTurn = 5, lockedAt = ''t1''\<rparr>
   \<and> JudgeChat \<notin> set (fst (snd (interact stalled_store demo_request demo_world)))"
  by (simp add: example_defs handler_defs)












text \<open>
  What the guards of the two handlers do. POST /api/interact rejects an unknown
  conversation and a completed one and leaves the store as it is. POST /api/tutor-response
  rejects an unknown conversation only: on any stored conversation, complete or not, it
  goes on to generate the tutor's next turn.
\<close>

lemma interact_rejects:
  assumes "s (or_default (conversation_id req) []) = None
           \<or> (\<exists>c. s (or_default (conversation_id req) []) = Some c \<and> isComplete c)"
    and "\<not> missing (conversation_id req)" and "\<not> missing (tutor_message req)"
  shows "interact s req w =
           (s, [], Inl (if s (or_default (conversation_id req) []) = None
                        then \<lparr>status = 404, error = ''Conversation not found''\<rparr>
                        else \<lparr>status = 400, error = ''Conversation is already complete''\<rparr>))"
  using assms by (auto simp: interact_def getConversation_def Let_def)

lemma tutorResponse_unknown:
  assumes "s (or_default (tr_conversation_id req) []) = None" and "\<not> missing (tr_conversation_id req)"
  shows "tutorResponse s req w = (s, [], Inl \<lparr>status = 404, error = ''Conversation not found''\<rparr>)"
  using assms by (simp add: tutorResponse_def getConversation_def Let_def)

lemma tutorResponse_ignores_completion:
  assumes "s (or_default (tr_conversation_id req) []) = Some c" and "\<not> missing (tr_conversation_id req)"
    and "dialogue w = CompletionContent (Some generated)"
  shows "\<exists>s' calls lv. tutorResponse s req w =
           (s', calls, Inr \<lparr>tutor_response = generated, turn_number = turnNumber c + 1,
                            phase = (if turnNumber c + 1 \<le> 5 then ''diagnostic'' else ''tutoring''),
                            estimated_level = lv, is_last_turn = (maxTurns c \<le> turnNumber c + 1)\<rparr>)"
  using assms
  by (auto simp: tutorResponse_def getConversation_def Let_def split: option.splits prod.splits)

text \<open>
  Claim C5 at a failing input: a session that is complete after ten turns. POST
  /api/interact answers 400 \<^verbatim>\<open>Conversation is already complete\<close>, but POST
  /api/tutor-response answers 200 with turn 11 of 10; and on a complete session without a
  locked level it also runs the judge and locks a level, so the request changes the store.
\<close>

theorem tutorResponse_on_completed_session:
  "map_option isComplete (completed_store demo_id) = Some True
   \<and> map_option turnNumber (completed_store demo_id) = Some 10
   \<and> snd (snd (interact completed_store demo_request demo_world)) =
       Inl \<lparr>status = 400, error = ''Conversation is already complete''\<rparr>
   \<and> snd (snd (tutorResponse completed_store demo_tutor_request tutor_world)) =
       Inr \<lparr>tutor_response = ''Great work, Tim!'', turn_number = 11, phase = ''tutoring'',
            estimated_level = Some (JNum 4), is_last_turn = True\<rparr>
   \<and> map_option isComplete (exhausted_store demo_id) = Some True
   \<and> getLockedPrediction exhausted_store demo_id = None
   \<and> getLockedPrediction (fst (tutorResponse exhausted_store demo_tutor_request tutor_world)) demo_id =
       Some \<lparr>level = JNum 4, rationale = JStr ''clear reasoning'', lockedAtTurn = 10, lockedAt = ''t1''\<rparr>"
  by (simp add: example_defs handler_defs)

text \<open>
  When the student's chat completion throws, the request answers 500, and the tutor's
  message, appended before the call, stays in the log with the turn counter advanced.
\<close>

lemma interact_dialogue_failure:
  assumes "s (or_default (conversation_id req) []) = Some c" and "\<not> isComplete c"
    and "\<not> missing (conversation_id req)" and "\<not> missing (tutor_message req)"
    and "student_prompt w = Some sp" and "dialogue w = CompletionThrows"
  shows "fst (interact s req w) =
           s(or_default (conversation_id req) [] \<mapsto> pushMessage c ''tutor'' (tutor_message req) (clock w))
       \<and> snd (snd (interact s req w)) =
           Inl \<lparr>status = 500, error = ''Failed to generate student response''\<rparr>"
  using assms by (simp add: interact_def getConversation_def addMessage_def Let_def)

text \<open>
  Claim C6 at a failing input: the first turn of a fresh session with a failing student
  call. The answer is the error 500, but the log holds the tutor's message and the turn
  counter is 1 instead of 0. Ten such failures complete a session that never had a
  student message.
\<close>

theorem interact_failure_keeps_tutor_message:
  "map_option messages (demo_store demo_id) = Some []
   \<and> map_option turnNumber (demo_store demo_id) = Some 0
   \<and> snd (snd (interact demo_store demo_request failing_world)) =
       Inl \<lparr>status = 500, error = ''Failed to generate student response''\<rparr>
   \<and> map_option messages (fst (interact demo_store demo_request failing_world) demo_id) =
       Some [\<lparr>role = ''tutor'', content = Some ''What is 2 + 2?'', timestamp = ''t1''\<rparr>]
   \<and> map_option turnNumber (fst (interact demo_store demo_request failing_world) demo_id) = Some 1
   \<and> map_option isComplete (exhausted_store demo_id) = Some True
   \<and> map_option (student_texts \<circ> messages) (exhausted_store demo_id) = Some []"
  by (simp add: example_defs handler_defs)


text \<open>
  Claim C8. The phase of a turn is \<^verbatim>\<open>diagnostic\<close> exactly for turn numbers up to 5 and
  \<^verbatim>\<open>tutoring\<close> exactly beyond; \<^verbatim>\<open>buildTutorMessages\<close> passes this phase to the turn
  directive and to the strategy directive, and the phase in a response of POST
  /api/tutor-response is this function of the response's turn number, the turn counter plus
  one, whatever the messages are.
\<close>

theorem phase_of_turn_boundary:
  "(phase_of_turn n = ''diagnostic'' \<longleftrightarrow> n \<le> 5)
   \<and> (phase_of_turn n = ''tutoring'' \<longleftrightarrow> 5 < n)
   \<and> take 2 (drop 1 (buildTutorMessages rt sp tp msgs n maxT)) =
       [\<lparr>oa_role = ''system'', oa_content = Some (turn_directive n maxT (phase_of_turn n))\<rparr>,
        \<lparr>oa_role = ''system'',
         oa_content = Some (buildStrategyDirective rt n maxT (phase_of_turn n) tp msgs)\<rparr>]
   \<and> (tutorResponse s req w = (s', calls, Inr r) \<longrightarrow>
        (\<exists>c. s (or_default (tr_conversation_id req) []) = Some c
           \<and> turn_number r = turnNumber c + 1 \<and> phase r = phase_of_turn (turn_number r)))"
proof -
  have "\<exists>c. s (or_default (tr_conversation_id req) []) = Some c
           \<and> turn_number r = turnNumber c + 1 \<and> phase r = phase_of_turn (turn_number r)"
    if "tutorResponse s req w = (s', calls, Inr r)"
    using that
    by (auto simp: tutorResponse_def getConversation_def Let_def phase_of_turn_def
        split: if_splits option.splits completion.splits prod.splits)
  then show ?thesis
    by (auto simp: phase_of_turn_def buildTutorMessages_def Let_def)
qed

theorem phase_of_turn_boundary_witness:
  "snd (snd (tutorResponse demo_store demo_tutor_request tutor_world)) =
     Inr \<lparr>tutor_response = ''Great work, Tim!'', turn_number = 1, phase = ''diagnostic'',
          estimated_level = None, is_last_turn = False\<rparr>
   \<and> phase_of_turn 1 = ''diagnostic'' \<and> phase_of_turn 5 = ''diagnostic''
   \<and> phase_of_turn 6 = ''tutoring''"
proof -
  let ?r = "\<lparr>tutor_response = ''Great work, Tim!'', turn_number = 1, phase = ''diagnostic'',
          estimated_level = None, is_last_turn = False\<rparr>"
  have r2: "snd (snd (tutorResponse demo_store demo_tutor_request tutor_world)) = Inr ?r"
    by (simp add: example_defs handler_defs)
  then have r: "tutorResponse demo_store demo_tutor_request tutor_world =
      (fst (tutorResponse demo_store demo_tutor_request tutor_world),
       fst (snd (tutorResponse demo_store demo_tutor_request tutor_world)), Inr ?r)"
    by (metis prod.collapse)
  note th = phase_of_turn_boundary [of 1 no_case_mapping "[]" demo_topic "[]" 10 demo_store demo_tutor_request tutor_world
      "fst (tutorResponse demo_store demo_tutor_request tutor_world)"
      "fst (snd (tutorResponse demo_store demo_tutor_request tutor_world))" ?r] r
  from th(1) have a: "phase_of_turn 1 = ''diagnostic''" by simp
  from th(1) [THEN conjunct2, THEN conjunct2, THEN conjunct2, THEN mp, OF th(2)]
  have "phase ?r = phase_of_turn (turn_number ?r)" by blast
  from phase_of_turn_boundary [of 5] have b: "phase_of_turn 5 = ''diagnostic''" by simp
  from phase_of_turn_boundary [of 6] have c: "phase_of_turn 6 = ''tutoring''" by simp
  from r2 a b c show ?thesis by (intro conjI)
qed

end
